theory Spec2Isabelle
  imports Complex_Main
begin

section \<open>Data model\<close>

text \<open>
  The order-and-inventory engine of the delivery backend: the Mongoose models Product,
  Cart, Order, Coupon and CouponUsage. A JavaScript Number is modelled as an exact
  rational (prices, quantities and amounts; rounding, NaN and Infinity are left out), a
  Date as milliseconds since the epoch, an ObjectId as its string form. A method that
  mutates its document returns the document as it is after the call together with the
  error it threw, if any: \<open>(this', None)\<close> is a normal return. Every cart method that
  returns normally has saved the cart; an order method may return without saving, so it
  returns an outcome that says which.
\<close>

type_synonym objectId = string
type_synonym number = rat
type_synonym date = int

datatype status = Pending | Confirmed | Packed | Out_for_delivery | Delivered | Cancelled | Returned

datatype payment_method = Cod | Online | Wallet | Card | Upi

datatype discount_type = Percentage | Fixed

datatype error =
    ProductNotFound
  | VariantNotFound
  | InsufficientStock
  | InsufficientStockForRequested
  | ItemNotFoundInCart
  | InvalidOrExpiredCoupon
  | MinimumOrderAmountRequired number
  | CouponNotValid
  | CannotChangeStatus status status
  | ValidationError
  | TypeError

subsection \<open>Product and its variants\<close>

record price =
  mrp :: number
  sellingPrice :: number
  discount :: number

record variant =
  v_id :: objectId
  v_size :: string
  v_unit :: string
  v_quantity :: number
  v_price :: price
  stock :: number

record product =
  p_name :: string
  variants :: "variant list"

text \<open>\<open>this.variants.id(variantId)\<close>: the first sub-document with that id.\<close>

definition variants_id :: "product \<Rightarrow> objectId \<Rightarrow> variant option" where
  "variants_id this variantId = find (\<lambda>v. v_id v = variantId) (variants this)"

text \<open>\<open>productSchema.methods.isAvailable\<close>: \<open>variant && variant.stock >= quantity\<close>.\<close>

definition isAvailable :: "product \<Rightarrow> objectId \<Rightarrow> number \<Rightarrow> bool" where
  "isAvailable this variantId qty =
     (case variants_id this variantId of
        None \<Rightarrow> False
      | Some v \<Rightarrow> stock v \<ge> qty)"

subsection \<open>Cart\<close>

text \<open>
  The \<open>product\<close> path of a cart line holds the product's ObjectId, or, on a cart loaded
  with \<open>.populate('items.product')\<close> as \<open>getCartByUser\<close> loads it, the product document
  itself. (A reference whose product is gone populates to null; such lines are left out
  of the model.) \<open>item.product.toString()\<close> is the id's string for an ObjectId; for a
  document it is the document's inspect dump, abbreviated here to its first two fields.
\<close>

datatype productRef = Ref objectId | Populated objectId product

fun toString :: "productRef \<Rightarrow> string" where
  "toString (Ref i) = i"
| "toString (Populated i p) = ''{ _id: '' @ i @ '', name: '' @ p_name p @ '' }''"

record cartItem =
  product :: productRef
  variant :: objectId
  quantity :: number
  price :: price

record cart =
  user :: objectId
  items :: "cartItem list"
  couponCode :: "string option"
  couponDiscount :: number
  totalItems :: number
  subtotal :: number
  totalDiscount :: number
  deliveryCharge :: number
  totalAmount :: number

text \<open>
  The three settings read from the process environment in the pre-save hook; an unset
  (or empty) variable is \<open>None\<close> and \<open>process.env.X || d\<close> falls back to \<open>d\<close>.
\<close>

record env =
  MIN_ORDER_AMOUNT :: "number option"
  DELIVERY_CHARGE :: "number option"
  FREE_DELIVERY_ABOVE :: "number option"

definition or_default :: "number option \<Rightarrow> number \<Rightarrow> number" where
  "or_default x d = (case x of None \<Rightarrow> d | Some y \<Rightarrow> y)"

text \<open>\<open>cartSchema.pre('save')\<close>: every total is a \<open>reduce\<close> over the items.\<close>

definition cart_pre_save :: "env \<Rightarrow> cart \<Rightarrow> cart" where
  "cart_pre_save e this =
     (let totalItems' = foldl (\<lambda>total item. total + quantity item) 0 (items this);
          subtotal' = foldl (\<lambda>total item. total + sellingPrice (price item) * quantity item) 0
                        (items this);
          totalDiscount' =
            foldl (\<lambda>total item. total + (mrp (price item) - sellingPrice (price item)) * quantity item)
              0 (items this) + couponDiscount this;
          minOrderAmount' = or_default (MIN_ORDER_AMOUNT e) 99;
          deliveryCharge' = or_default (DELIVERY_CHARGE e) 29;
          freeDeliveryAbove = or_default (FREE_DELIVERY_ABOVE e) 299;
          charge = (if subtotal' \<ge> freeDeliveryAbove then 0
                    else if subtotal' \<ge> minOrderAmount' then deliveryCharge'
                    else 0)
      in this\<lparr>totalItems := totalItems', subtotal := subtotal', totalDiscount := totalDiscount',
              deliveryCharge := charge, totalAmount := subtotal' + charge - couponDiscount this\<rparr>)"

text \<open>
  \<open>this.save()\<close>: the schema's validators run first (a cart item's quantity has
  \<open>min: 1\<close>); when one fails the document keeps its edits, the hook does not run and
  nothing is stored. Otherwise the hook runs and the document is stored.
\<close>

definition cart_save :: "env \<Rightarrow> cart \<Rightarrow> cart \<times> error option" where
  "cart_save e this =
     (if list_all (\<lambda>item. quantity item \<ge> 1) (items this)
      then (cart_pre_save e this, None)
      else (this, Some ValidationError))"

text \<open>\<open>Array.prototype.findIndex\<close>, with \<open>None\<close> for \<open>-1\<close>.\<close>

fun findIndex :: "('a \<Rightarrow> bool) \<Rightarrow> 'a list \<Rightarrow> nat option" where
  "findIndex P [] = None"
| "findIndex P (x # xs) = (if P x then Some 0 else map_option Suc (findIndex P xs))"

text \<open>
  The test of \<open>findIndex\<close> and \<open>filter\<close> in the cart methods:
  \<open>item.product.toString() === productId && item.variant.toString() === variantId\<close>.
\<close>

definition same_line :: "objectId \<Rightarrow> objectId \<Rightarrow> cartItem \<Rightarrow> bool" where
  "same_line productId variantId item \<longleftrightarrow>
     toString (product item) = productId \<and> variant item = variantId"

definition addItem ::
  "env \<Rightarrow> (objectId \<rightharpoonup> product) \<Rightarrow> cart \<Rightarrow> objectId \<Rightarrow> objectId \<Rightarrow> number \<Rightarrow> cart \<times> error option"
where
  "addItem e Product this productId variantId qty =
     (case Product productId of
        None \<Rightarrow> (this, Some ProductNotFound)
      | Some p \<Rightarrow>
          (case variants_id p variantId of
             None \<Rightarrow> (this, Some VariantNotFound)
           | Some v \<Rightarrow>
               if \<not> isAvailable p variantId qty then (this, Some InsufficientStock)
               else
                 (case findIndex (same_line productId variantId) (items this) of
                    Some i \<Rightarrow>
                      (let newQuantity = quantity (items this ! i) + qty in
                       if \<not> isAvailable p variantId newQuantity
                       then (this, Some InsufficientStockForRequested)
                       else cart_save e
                              (this\<lparr>items := (items this)
                                  [i := (items this ! i)\<lparr>quantity := newQuantity\<rparr>]\<rparr>))
                  | None \<Rightarrow>
                      cart_save e
                        (this\<lparr>items := items this @
                            [\<lparr>product = Ref productId, variant = variantId, quantity = qty,
                              price = \<lparr>mrp = mrp (v_price v),
                                        sellingPrice = sellingPrice (v_price v),
                                        discount = discount (v_price v)\<rparr>\<rparr>]\<rparr>))))"

definition updateItemQuantity ::
  "env \<Rightarrow> (objectId \<rightharpoonup> product) \<Rightarrow> cart \<Rightarrow> objectId \<Rightarrow> objectId \<Rightarrow> number \<Rightarrow> cart \<times> error option"
where
  "updateItemQuantity e Product this productId variantId qty =
     (case Product productId of
        None \<Rightarrow> (this, Some ProductNotFound)
      | Some p \<Rightarrow>
          if \<not> isAvailable p variantId qty then (this, Some InsufficientStock)
          else
            (case findIndex (same_line productId variantId) (items this) of
               None \<Rightarrow> (this, Some ItemNotFoundInCart)
             | Some i \<Rightarrow>
                 if qty \<le> 0
                 then cart_save e (this\<lparr>items := take i (items this) @ drop (Suc i) (items this)\<rparr>)
                 else cart_save e
                        (this\<lparr>items := (items this)[i := (items this ! i)\<lparr>quantity := qty\<rparr>]\<rparr>)))"

definition removeItem :: "env \<Rightarrow> cart \<Rightarrow> objectId \<Rightarrow> objectId \<Rightarrow> cart \<times> error option" where
  "removeItem e this productId variantId =
     cart_save e (this\<lparr>items := filter (\<lambda>item. \<not> same_line productId variantId item) (items this)\<rparr>)"

definition clearCart :: "env \<Rightarrow> cart \<Rightarrow> cart \<times> error option" where
  "clearCart e this = cart_save e (this\<lparr>items := [], couponCode := None, couponDiscount := 0\<rparr>)"

definition removeCoupon :: "env \<Rightarrow> cart \<Rightarrow> cart \<times> error option" where
  "removeCoupon e this = cart_save e (this\<lparr>couponCode := None, couponDiscount := 0\<rparr>)"

subsection \<open>Coupon and CouponUsage\<close>

record coupon =
  c_id :: objectId
  code :: string
  discountType :: discount_type
  discountValue :: number
  minOrderAmount :: number
  maxDiscount :: "number option"
  usageLimit :: "number option"
  usedCount :: number
  userUsageLimit :: number
  validFrom :: date
  validUntil :: date
  isActive :: bool
  isFirstOrderOnly :: bool

record couponUsage =
  cu_coupon :: objectId
  cu_user :: objectId
  cu_order :: "objectId option"
  discountAmount :: number
  usedAt :: date

text \<open>
  \<open>cartSchema.methods.applyCoupon\<close>. \<open>Coupon.findOne\<close> filters on the code, the
  active flag and the validity window; \<open>if (coupon.maxDiscount)\<close> is false for an unset
  cap and for a cap of zero.
\<close>

definition applyCoupon ::
  "env \<Rightarrow> coupon list \<Rightarrow> date \<Rightarrow> cart \<Rightarrow> string \<Rightarrow> cart \<times> error option"
where
  "applyCoupon e Coupon now this cc =
     (case find (\<lambda>c. code c = cc \<and> isActive c \<and> validFrom c \<le> now \<and> validUntil c \<ge> now) Coupon of
        None \<Rightarrow> (this, Some InvalidOrExpiredCoupon)
      | Some c \<Rightarrow>
          if subtotal this < minOrderAmount c
          then (this, Some (MinimumOrderAmountRequired (minOrderAmount c)))
          else
            (let d = (if discountType c = Percentage
                      then (let d0 = (subtotal this * discountValue c) / 100 in
                            case maxDiscount c of
                              None \<Rightarrow> d0
                            | Some m \<Rightarrow> if m \<noteq> 0 then min d0 m else d0)
                      else discountValue c)
             in cart_save e (this\<lparr>couponCode := Some cc, couponDiscount := d\<rparr>)))"

text \<open>The virtual \<open>isValidForUsage\<close>, read at time \<open>now\<close>.\<close>

definition isValidForUsage :: "coupon \<Rightarrow> date \<Rightarrow> bool" where
  "isValidForUsage this now \<longleftrightarrow>
     isActive this \<and> now \<ge> validFrom this \<and> now \<le> validUntil this \<and>
     (case usageLimit this of None \<Rightarrow> True | Some l \<Rightarrow> usedCount this < l)"

text \<open>\<open>couponSchema.methods.calculateDiscount\<close> (its \<open>cartItems\<close> argument is never read).\<close>

definition calculateDiscount :: "coupon \<Rightarrow> date \<Rightarrow> number \<Rightarrow> error + number" where
  "calculateDiscount this now cartTotal =
     (if \<not> isValidForUsage this now then Inl CouponNotValid
      else if cartTotal < minOrderAmount this
      then Inl (MinimumOrderAmountRequired (minOrderAmount this))
      else
        (let applicableAmount = cartTotal;
             d = (if discountType this = Percentage
                  then (let d0 = (applicableAmount * discountValue this) / 100 in
                        case maxDiscount this of
                          None \<Rightarrow> d0
                        | Some m \<Rightarrow> if m \<noteq> 0 then min d0 m else d0)
                  else discountValue this)
         in Inr (min d applicableAmount)))"

text \<open>
  \<open>CouponUsage.create\<close>: the schema requires \<open>discountAmount\<close> (with \<open>min: 0\<close>);
  \<open>order\<close> is optional. A document that fails validation is not inserted.
\<close>

definition CouponUsage_create ::
  "couponUsage list \<Rightarrow> objectId \<Rightarrow> objectId \<Rightarrow> objectId option \<Rightarrow> number option \<Rightarrow> date
     \<Rightarrow> couponUsage list \<times> error option"
where
  "CouponUsage_create CouponUsage c u ord amount tm =
     (case amount of
        None \<Rightarrow> (CouponUsage, Some ValidationError)
      | Some a \<Rightarrow>
          if a < 0 then (CouponUsage, Some ValidationError)
          else (CouponUsage @
                  [\<lparr>cu_coupon = c, cu_user = u, cu_order = ord, discountAmount = a, usedAt = tm\<rparr>],
                None))"

text \<open>
  \<open>couponSchema.methods.useCoupon\<close>: the counter is incremented and the coupon saved,
  then a usage is created from \<open>{coupon, user, usedAt}\<close> only. The result is the stored
  coupon, the CouponUsage collection and the error thrown.
\<close>

definition useCoupon ::
  "coupon \<Rightarrow> couponUsage list \<Rightarrow> objectId \<Rightarrow> date \<Rightarrow> (coupon \<times> couponUsage list) \<times> error option"
where
  "useCoupon this CouponUsage userId now =
     (let this' = this\<lparr>usedCount := usedCount this + 1\<rparr>;
          r = CouponUsage_create CouponUsage (c_id this') userId None None now
      in ((this', fst r), snd r))"

subsection \<open>Order\<close>

record orderItem =
  oi_product :: objectId
  oi_variant :: objectId
  productName :: string
  vd_size :: string
  vd_unit :: string
  vd_quantity :: number
  oi_quantity :: number
  oi_price :: price
  totalPrice :: number

record orderTracking =
  t_status :: status
  timestamp :: date
  t_note :: string
  updatedBy :: "objectId option"

record paymentDetails =
  pd_method :: payment_method
  paidAmount :: "number option"

record orderSummary =
  os_itemsCount :: number
  os_subtotal :: number
  os_discount :: number
  os_couponDiscount :: number
  os_deliveryCharge :: number
  os_totalAmount :: number

record order =
  o_user :: objectId
  o_items :: "orderItem list"
  orderSummary :: orderSummary
  o_couponCode :: "string option"
  status :: status
  tracking :: "orderTracking list"
  paymentDetails :: "paymentDetails option"
  deliveryPartner :: "objectId option"
  actualDeliveryTime :: "date option"

text \<open>
  How a call of an order method ends: it threw, it resolved without saving, or it
  returned \<open>this.save()\<close>.
\<close>

datatype outcome = Threw error | Resolved | Saved

text \<open>The table \<open>validTransitions\<close> of \<open>updateStatus\<close>.\<close>

fun validTransitions :: "status \<Rightarrow> status list" where
  "validTransitions Pending = [Confirmed, Cancelled]"
| "validTransitions Confirmed = [Packed, Cancelled]"
| "validTransitions Packed = [Out_for_delivery, Cancelled]"
| "validTransitions Out_for_delivery = [Delivered, Cancelled]"
| "validTransitions Delivered = [Returned]"
| "validTransitions Cancelled = []"
| "validTransitions Returned = []"

fun getStatusMessage :: "status \<Rightarrow> string" where
  "getStatusMessage Pending = ''Order is being processed''"
| "getStatusMessage Confirmed = ''Order confirmed and being prepared''"
| "getStatusMessage Packed = ''Order packed and ready for delivery''"
| "getStatusMessage Out_for_delivery = ''Order is out for delivery''"
| "getStatusMessage Delivered = ''Order delivered successfully''"
| "getStatusMessage Cancelled = ''Order cancelled''"
| "getStatusMessage Returned = ''Order returned''"

text \<open>
  \<open>orderSchema.methods.updateStatus\<close>, called at time \<open>now\<close>. The same-state call
  resolves without saving; the save of a stored order runs no part of the pre-save hook
  (\<open>isNew\<close> is false).
\<close>

definition updateStatus ::
  "order \<Rightarrow> status \<Rightarrow> string \<Rightarrow> objectId option \<Rightarrow> date \<Rightarrow> order \<times> outcome"
where
  "updateStatus this newStatus nt byUser now =
     (if status this = newStatus then (this, Resolved)
      else if newStatus \<notin> set (validTransitions (status this))
      then (this, Threw (CannotChangeStatus (status this) newStatus))
      else
        (let this1 = this\<lparr>status := newStatus,
                         tracking := tracking this @
                           [\<lparr>t_status = newStatus, timestamp = now,
                             t_note = (if nt \<noteq> [] then nt else getStatusMessage newStatus),
                             updatedBy = byUser\<rparr>]\<rparr>;
             this2 = (if newStatus = Delivered then this1\<lparr>actualDeliveryTime := Some now\<rparr>
                      else this1)
         in (this2, Saved)))"

text \<open>\<open>orderSchema.methods.assignDeliveryPartner\<close>: the partner is written first.\<close>

definition assignDeliveryPartner :: "order \<Rightarrow> objectId \<Rightarrow> date \<Rightarrow> order \<times> outcome" where
  "assignDeliveryPartner this partnerId now =
     updateStatus (this\<lparr>deliveryPartner := Some partnerId\<rparr>) Out_for_delivery
       ''Assigned to delivery partner'' (Some partnerId) now"

text \<open>
  The stored order after a method was called on the document loaded from it: only
  \<open>save()\<close> writes the document back.
\<close>

definition stored_after :: "order \<Rightarrow> order \<times> outcome \<Rightarrow> order" where
  "stored_after stored r =
     (case snd r of Saved \<Rightarrow> fst r | Resolved \<Rightarrow> stored | Threw err \<Rightarrow> stored)"

text \<open>The transition table in the specification's words (section 4.4).\<close>

fun spec_transition :: "status \<Rightarrow> status \<Rightarrow> bool" where
  "spec_transition Pending t \<longleftrightarrow> t = Confirmed \<or> t = Cancelled"
| "spec_transition Confirmed t \<longleftrightarrow> t = Packed \<or> t = Cancelled"
| "spec_transition Packed t \<longleftrightarrow> t = Out_for_delivery \<or> t = Cancelled"
| "spec_transition Out_for_delivery t \<longleftrightarrow> t = Delivered \<or> t = Cancelled"
| "spec_transition Delivered t \<longleftrightarrow> t = Returned"
| "spec_transition Cancelled t \<longleftrightarrow> False"
| "spec_transition Returned t \<longleftrightarrow> False"

text \<open>
  \<open>orderSchema.methods.calculateRefundAmount\<close>. \<open>paymentDetails\<close> is not a required
  path; reading \<open>.method\<close> of a missing one throws.
\<close>

definition calculateRefundAmount :: "order \<Rightarrow> error + number" where
  "calculateRefundAmount this =
     (case paymentDetails this of
        None \<Rightarrow> Inl TypeError
      | Some pd \<Rightarrow>
          if pd_method pd = Cod then Inr 0
          else if status this \<in> set [Pending, Confirmed]
          then Inr (os_totalAmount (orderSummary this))
          else if status this = Packed
          then Inr (os_totalAmount (orderSummary this) - os_deliveryCharge (orderSummary this))
          else Inr 0)"

text \<open>
  \<open>couponSchema.methods.canUserUseCoupon\<close>, over the Order and CouponUsage collections.
  The result is \<open>None\<close> for \<open>{canUse: true}\<close> and the reason otherwise.
\<close>

definition canUserUseCoupon ::
  "coupon \<Rightarrow> order list \<Rightarrow> couponUsage list \<Rightarrow> date \<Rightarrow> objectId \<Rightarrow> string option"
where
  "canUserUseCoupon this Order CouponUsage now userId =
     (if \<not> isValidForUsage this now then Some ''Coupon is not valid''
      else if isFirstOrderOnly this \<and>
              length (filter (\<lambda>ord. o_user ord = userId \<and> status ord \<noteq> Cancelled) Order) > 0
      then Some ''This coupon is only valid for first order''
      else if of_nat (length (filter (\<lambda>u. cu_coupon u = c_id this \<and> cu_user u = userId) CouponUsage))
                \<ge> userUsageLimit this
      then Some ''You have already used this coupon maximum times''
      else None)"

subsection \<open>Requests against a stored cart\<close>

text \<open>
  \<open>cartSchema.statics.getCartByUser\<close> creates the cart of a user who has none from
  \<open>{user: userId}\<close> and the schema's defaults; \<open>create\<close> saves it.
\<close>

definition new_cart :: "env \<Rightarrow> objectId \<Rightarrow> cart" where
  "new_cart e userId =
     fst (cart_save e \<lparr>user = userId, items = [], couponCode = None, couponDiscount = 0,
                       totalItems = 0, subtotal = 0, totalDiscount = 0, deliveryCharge = 0,
                       totalAmount = 0\<rparr>)"

datatype cart_op =
    AddItem objectId objectId number
  | UpdateItemQuantity objectId objectId number
  | RemoveItem objectId objectId
  | ClearCart
  | ApplyCoupon string date
  | RemoveCoupon

fun apply_op ::
  "env \<Rightarrow> (objectId \<rightharpoonup> product) \<Rightarrow> coupon list \<Rightarrow> cart \<Rightarrow> cart_op \<Rightarrow> cart \<times> error option"
where
  "apply_op e Product Coupon this (AddItem p v q) = addItem e Product this p v q"
| "apply_op e Product Coupon this (UpdateItemQuantity p v q) = updateItemQuantity e Product this p v q"
| "apply_op e Product Coupon this (RemoveItem p v) = removeItem e this p v"
| "apply_op e Product Coupon this ClearCart = clearCart e this"
| "apply_op e Product Coupon this (ApplyCoupon cc now) = applyCoupon e Coupon now this cc"
| "apply_op e Product Coupon this RemoveCoupon = removeCoupon e this"

text \<open>
  A sequence of requests on the stored cart: each request loads the stored cart (its
  product references as stored, not populated) and calls one method; a call that throws
  stores nothing, so the next request sees the cart as it was stored last.
\<close>

fun run_ops ::
  "env \<Rightarrow> (objectId \<rightharpoonup> product) \<Rightarrow> coupon list \<Rightarrow> cart \<Rightarrow> cart_op list \<Rightarrow> cart"
where
  "run_ops e Product Coupon stored [] = stored"
| "run_ops e Product Coupon stored (op # ops) =
     (case apply_op e Product Coupon stored op of
        (this', None) \<Rightarrow> run_ops e Product Coupon this' ops
      | (this', Some err) \<Rightarrow> run_ops e Product Coupon stored ops)"

subsection \<open>The pricing rules in the specification's words\<close>

definition freeDeliveryThreshold :: "env \<Rightarrow> number" where
  "freeDeliveryThreshold e = or_default (FREE_DELIVERY_ABOVE e) 299"

definition minOrderThreshold :: "env \<Rightarrow> number" where
  "minOrderThreshold e = or_default (MIN_ORDER_AMOUNT e) 99"

definition flatDeliveryFee :: "env \<Rightarrow> number" where
  "flatDeliveryFee e = or_default (DELIVERY_CHARGE e) 29"

definition spec_totalItems :: "cartItem list \<Rightarrow> number" where
  "spec_totalItems its = (\<Sum>item\<leftarrow>its. quantity item)"

definition spec_subtotal :: "cartItem list \<Rightarrow> number" where
  "spec_subtotal its = (\<Sum>item\<leftarrow>its. sellingPrice (price item) * quantity item)"

definition spec_totalDiscount :: "cartItem list \<Rightarrow> number \<Rightarrow> number" where
  "spec_totalDiscount its cd =
     (\<Sum>item\<leftarrow>its. (mrp (price item) - sellingPrice (price item)) * quantity item) + cd"

definition spec_deliveryCharge :: "env \<Rightarrow> number \<Rightarrow> number" where
  "spec_deliveryCharge e st =
     (if st \<ge> freeDeliveryThreshold e then 0
      else if minOrderThreshold e \<le> st \<and> st < freeDeliveryThreshold e then flatDeliveryFee e
      else 0)"

text \<open>The stored totals of a cart are the recomputation from its items and coupon discount.\<close>

definition totals_recomputed :: "env \<Rightarrow> cart \<Rightarrow> bool" where
  "totals_recomputed e c \<longleftrightarrow>
     totalItems c = spec_totalItems (items c) \<and>
     subtotal c = spec_subtotal (items c) \<and>
     totalDiscount c = spec_totalDiscount (items c) (couponDiscount c) \<and>
     deliveryCharge c = spec_deliveryCharge e (subtotal c) \<and>
     totalAmount c = subtotal c + deliveryCharge c - couponDiscount c"

subsection \<open>Invariants of stored carts\<close>

text \<open>
  Every selling price of the catalogue is non-negative (the variant schema sets no
  minimum), and what every stored cart satisfies under such a catalogue: no coupon code
  means no coupon discount, and every line has a quantity of at least 1 and a
  non-negative selling price.
\<close>

definition prices_nonneg :: "(objectId \<rightharpoonup> product) \<Rightarrow> bool" where
  "prices_nonneg Product \<longleftrightarrow>
     (\<forall>productId p. Product productId = Some p \<longrightarrow>
        list_all (\<lambda>v. sellingPrice (v_price v) \<ge> 0) (variants p))"

definition stored_cart_inv :: "cart \<Rightarrow> bool" where
  "stored_cart_inv c \<longleftrightarrow>
     (couponCode c = None \<longrightarrow> couponDiscount c = 0) \<and>
     list_all (\<lambda>item. quantity item \<ge> 1 \<and> sellingPrice (price item) \<ge> 0) (items c)"

text \<open>The product and variant a cart line stands for.\<close>

definition line_key :: "cartItem \<Rightarrow> objectId \<times> objectId" where
  "line_key item = (toString (product item), variant item)"

section \<open>Sample data\<close>

text \<open>The default environment, a small catalogue, the two coupons of the README and one more.\<close>

definition env0 :: env where
  "env0 = \<lparr>MIN_ORDER_AMOUNT = None, DELIVERY_CHARGE = None, FREE_DELIVERY_ABOVE = None\<rparr>"

definition rice :: product where
  "rice = \<lparr>p_name = ''Basmati Rice'',
            variants = [\<lparr>v_id = ''v1'', v_size = ''5kg'', v_unit = ''kg'', v_quantity = 5,
                         v_price = \<lparr>mrp = 350, sellingPrice = 300, discount = 50\<rparr>, stock = 5\<rparr>]\<rparr>"

definition milk :: product where
  "milk = \<lparr>p_name = ''Milk'',
            variants = [\<lparr>v_id = ''v2'', v_size = ''1l'', v_unit = ''l'', v_quantity = 1,
                         v_price = \<lparr>mrp = 64, sellingPrice = 60, discount = 4\<rparr>, stock = 10\<rparr>]\<rparr>"

definition catalogue :: "objectId \<rightharpoonup> product" where
  "catalogue = [''p1'' \<mapsto> rice, ''p2'' \<mapsto> milk]"

definition FLAT50 :: coupon where
  "FLAT50 = \<lparr>c_id = ''c1'', code = ''FLAT50'', discountType = Fixed, discountValue = 50,
              minOrderAmount = 300, maxDiscount = None, usageLimit = None, usedCount = 1,
              userUsageLimit = 1, validFrom = 0, validUntil = 1000, isActive = True,
              isFirstOrderOnly = False\<rparr>"

definition WELCOME10 :: coupon where
  "WELCOME10 = \<lparr>c_id = ''c2'', code = ''WELCOME10'', discountType = Percentage,
                 discountValue = 10, minOrderAmount = 200, maxDiscount = Some 100,
                 usageLimit = None, usedCount = 0, userUsageLimit = 1, validFrom = 0,
                 validUntil = 1000, isActive = True, isFirstOrderOnly = False\<rparr>"

definition OFF100 :: coupon where
  "OFF100 = \<lparr>c_id = ''c3'', code = ''OFF100'', discountType = Fixed, discountValue = 100,
              minOrderAmount = 0, maxDiscount = None, usageLimit = None, usedCount = 0,
              userUsageLimit = 1, validFrom = 0, validUntil = 1000, isActive = True,
              isFirstOrderOnly = False\<rparr>"

definition rice_cart :: cart where
  "rice_cart = run_ops env0 catalogue [FLAT50] (new_cart env0 ''u1'') [AddItem ''p1'' ''v1'' 1]"

definition milk_cart :: cart where
  "milk_cart = run_ops env0 catalogue [OFF100] (new_cart env0 ''u1'') [AddItem ''p2'' ''v2'' 1]"

definition flat50_used_by_u1 :: "couponUsage list" where
  "flat50_used_by_u1 =
     [\<lparr>cu_coupon = ''c1'', cu_user = ''u1'', cu_order = Some ''o1'', discountAmount = 50,
       usedAt = 5\<rparr>]"

definition sample_order :: "payment_method \<Rightarrow> status \<Rightarrow> order" where
  "sample_order m st =
     \<lparr>o_user = ''u1'',
      o_items = [\<lparr>oi_product = ''p3'', oi_variant = ''v3'', productName = ''Ghee'',
                  vd_size = ''500g'', vd_unit = ''g'', vd_quantity = 500, oi_quantity = 1,
                  oi_price = \<lparr>mrp = 300, sellingPrice = 270, discount = 30\<rparr>,
                  totalPrice = 270\<rparr>],
      orderSummary = \<lparr>os_itemsCount = 1, os_subtotal = 270, os_discount = 30,
                       os_couponDiscount = 0, os_deliveryCharge = 29, os_totalAmount = 299\<rparr>,
      o_couponCode = None, status = st,
      tracking = [\<lparr>t_status = Pending, timestamp = 0, t_note = ''Order placed successfully'',
                   updatedBy = None\<rparr>],
      paymentDetails = Some \<lparr>pd_method = m, paidAmount = None\<rparr>,
      deliveryPartner = None, actualDeliveryTime = None\<rparr>"

text \<open>The rice cart as \<open>getCartByUser\<close> loads it, the product of its line populated.\<close>

definition loaded_rice_cart :: cart where
  "loaded_rice_cart =
     rice_cart\<lparr>items := map (\<lambda>item. item\<lparr>product := Populated ''p1'' rice\<rparr>) (items rice_cart)\<rparr>"

section \<open>Order lifecycle\<close>

lemma validTransitions_spec:
  "t \<in> set (validTransitions s) \<longleftrightarrow> spec_transition s t"
  by (cases s) auto

lemma spec_transition_irrefl: "\<not> spec_transition s s"
  by (cases s) auto

lemma updateStatus_same_state:
  "updateStatus this (status this) nt byUser now = (this, Resolved)"
  by (simp add: updateStatus_def)

lemma updateStatus_rejected:
  assumes "newStatus \<noteq> status this" and "newStatus \<notin> set (validTransitions (status this))"
  shows "updateStatus this newStatus nt byUser now =
           (this, Threw (CannotChangeStatus (status this) newStatus))"
  using assms by (auto simp: updateStatus_def)

lemma updateStatus_accepted:
  assumes "newStatus \<in> set (validTransitions (status this))"
  shows "snd (updateStatus this newStatus nt byUser now) = Saved \<and>
         status (fst (updateStatus this newStatus nt byUser now)) = newStatus \<and>
         tracking (fst (updateStatus this newStatus nt byUser now)) =
           tracking this @
             [\<lparr>t_status = newStatus, timestamp = now,
               t_note = (if nt \<noteq> [] then nt else getStatusMessage newStatus),
               updatedBy = byUser\<rparr>]"
proof -
  have "status this \<noteq> newStatus"
    using assms by (cases "status this") auto
  with assms show ?thesis
    by (simp add: updateStatus_def Let_def)
qed

text \<open>
  On the document in memory a rejected \<open>assignDeliveryPartner\<close> leaves the partner it
  wrote before the check; nothing of it is saved.
\<close>

lemma assignDeliveryPartner_rejected_document:
  "assignDeliveryPartner (sample_order Online Pending) ''d7'' 60 =
     ((sample_order Online Pending)\<lparr>deliveryPartner := Some ''d7''\<rparr>,
      Threw (CannotChangeStatus Pending Out_for_delivery))"
  by (simp add: assignDeliveryPartner_def updateStatus_def sample_order_def)

text \<open>
  C3: a status update is saved exactly when the transition table allows the pair; a
  request for the current status resolves with the order as it is and appends nothing;
  every other pair throws and leaves the order, document and stored, unchanged. A saved
  transition sets the status and appends exactly one tracking entry with the new status,
  the time, the supplied message (the default one for an empty message) and the acting
  user. Through \<open>assignDeliveryPartner\<close> the same rule decides: a rejected or same-state
  request leaves the stored order unchanged, and an allowed one stores the partner, the
  status and one tracking entry.
\<close>

theorem updateStatus_follows_transition_table:
  "(snd (updateStatus ord t nt byUser now) = Saved \<longleftrightarrow> spec_transition (status ord) t) \<and>
   (snd (updateStatus ord t nt byUser now) = Resolved \<longleftrightarrow> t = status ord) \<and>
   (t = status ord \<longrightarrow> updateStatus ord t nt byUser now = (ord, Resolved)) \<and>
   (t \<noteq> status ord \<and> \<not> spec_transition (status ord) t \<longrightarrow>
      updateStatus ord t nt byUser now = (ord, Threw (CannotChangeStatus (status ord) t))) \<and>
   (spec_transition (status ord) t \<longrightarrow>
      status (fst (updateStatus ord t nt byUser now)) = t \<and>
      tracking (fst (updateStatus ord t nt byUser now)) =
        tracking ord @
          [\<lparr>t_status = t, timestamp = now,
            t_note = (if nt \<noteq> [] then nt else getStatusMessage t),
            updatedBy = byUser\<rparr>]) \<and>
   (\<not> spec_transition (status ord) t \<longrightarrow>
      stored_after ord (updateStatus ord t nt byUser now) = ord) \<and>
   (snd (assignDeliveryPartner ord partnerId now) = Saved \<longleftrightarrow>
      spec_transition (status ord) Out_for_delivery) \<and>
   (status ord \<noteq> Out_for_delivery \<and> \<not> spec_transition (status ord) Out_for_delivery \<longrightarrow>
      snd (assignDeliveryPartner ord partnerId now) =
        Threw (CannotChangeStatus (status ord) Out_for_delivery)) \<and>
   (\<not> spec_transition (status ord) Out_for_delivery \<longrightarrow>
      stored_after ord (assignDeliveryPartner ord partnerId now) = ord) \<and>
   (spec_transition (status ord) Out_for_delivery \<longrightarrow>
      stored_after ord (assignDeliveryPartner ord partnerId now) =
        ord\<lparr>status := Out_for_delivery,
            tracking := tracking ord @
              [\<lparr>t_status = Out_for_delivery, timestamp = now,
                t_note = ''Assigned to delivery partner'', updatedBy = Some partnerId\<rparr>],
            deliveryPartner := Some partnerId\<rparr>)"
proof -
  have tbl: "t' \<in> set (validTransitions (status ord)) \<longleftrightarrow> spec_transition (status ord) t'" for t'
    by (rule validTransitions_spec)
  have irr: "\<not> spec_transition (status ord) (status ord)"
    by (rule spec_transition_irrefl)
  have a: "snd (updateStatus ord t nt byUser now) = Saved \<longleftrightarrow> spec_transition (status ord) t"
    using irr by (auto simp: updateStatus_def Let_def tbl)
  have b: "snd (updateStatus ord t nt byUser now) = Resolved \<longleftrightarrow> t = status ord"
    by (auto simp: updateStatus_def Let_def)
  have c: "t = status ord \<longrightarrow> updateStatus ord t nt byUser now = (ord, Resolved)"
    by (simp add: updateStatus_def)
  have d: "t \<noteq> status ord \<and> \<not> spec_transition (status ord) t \<longrightarrow>
      updateStatus ord t nt byUser now = (ord, Threw (CannotChangeStatus (status ord) t))"
    by (auto simp: updateStatus_def tbl)
  have e: "spec_transition (status ord) t \<longrightarrow>
      status (fst (updateStatus ord t nt byUser now)) = t \<and>
      tracking (fst (updateStatus ord t nt byUser now)) =
        tracking ord @
          [\<lparr>t_status = t, timestamp = now,
            t_note = (if nt \<noteq> [] then nt else getStatusMessage t),
            updatedBy = byUser\<rparr>]"
    using updateStatus_accepted [of t ord nt byUser now] by (simp add: tbl)
  have f: "\<not> spec_transition (status ord) t \<longrightarrow>
      stored_after ord (updateStatus ord t nt byUser now) = ord"
    by (auto simp: stored_after_def updateStatus_def tbl)
  have st: "status (ord\<lparr>deliveryPartner := Some partnerId\<rparr>) = status ord" by simp
  have g: "snd (assignDeliveryPartner ord partnerId now) = Saved \<longleftrightarrow>
      spec_transition (status ord) Out_for_delivery"
    using irr by (auto simp: assignDeliveryPartner_def updateStatus_def Let_def tbl)
  have h: "status ord \<noteq> Out_for_delivery \<and> \<not> spec_transition (status ord) Out_for_delivery \<longrightarrow>
      snd (assignDeliveryPartner ord partnerId now) =
        Threw (CannotChangeStatus (status ord) Out_for_delivery)"
    by (auto simp: assignDeliveryPartner_def updateStatus_def tbl)
  have i: "\<not> spec_transition (status ord) Out_for_delivery \<longrightarrow>
      stored_after ord (assignDeliveryPartner ord partnerId now) = ord"
    by (auto simp: stored_after_def assignDeliveryPartner_def updateStatus_def tbl)
  have j: "spec_transition (status ord) Out_for_delivery \<longrightarrow>
      stored_after ord (assignDeliveryPartner ord partnerId now) =
        ord\<lparr>status := Out_for_delivery,
            tracking := tracking ord @
              [\<lparr>t_status = Out_for_delivery, timestamp = now,
                t_note = ''Assigned to delivery partner'', updatedBy = Some partnerId\<rparr>],
            deliveryPartner := Some partnerId\<rparr>"
    using irr
    by (auto simp: stored_after_def assignDeliveryPartner_def updateStatus_def Let_def tbl)
  from a b c d e f g h i j show ?thesis by blast
qed

theorem updateStatus_follows_transition_table_witness:
  "status (sample_order Online Pending) = Pending \<and>
   spec_transition Pending Cancelled \<and>
   snd (updateStatus (sample_order Online Pending) Cancelled [] (Some ''a1'') 60) = Saved \<and>
   tracking (fst (updateStatus (sample_order Online Pending) Cancelled [] (Some ''a1'') 60)) =
     tracking (sample_order Online Pending) @
       [\<lparr>t_status = Cancelled, timestamp = 60, t_note = ''Order cancelled'',
         updatedBy = Some ''a1''\<rparr>] \<and>
   updateStatus (sample_order Online Pending) Pending [] None 60 =
     (sample_order Online Pending, Resolved) \<and>
   \<not> spec_transition Pending Out_for_delivery \<and>
   updateStatus (sample_order Online Pending) Out_for_delivery [] None 60 =
     (sample_order Online Pending, Threw (CannotChangeStatus Pending Out_for_delivery)) \<and>
   snd (assignDeliveryPartner (sample_order Online Pending) ''d7'' 60) =
     Threw (CannotChangeStatus Pending Out_for_delivery) \<and>
   stored_after (sample_order Online Pending)
     (assignDeliveryPartner (sample_order Online Pending) ''d7'' 60) = sample_order Online Pending \<and>
   \<not> spec_transition Delivered Confirmed \<and>
   snd (updateStatus (sample_order Online Delivered) Confirmed [] None 60) =
     Threw (CannotChangeStatus Delivered Confirmed) \<and>
   deliveryPartner (stored_after (sample_order Online Packed)
     (assignDeliveryPartner (sample_order Online Packed) ''d7'' 60)) = Some ''d7''"
proof -
  have st: "status (sample_order m s) = s" for m s
    by (simp add: sample_order_def)
  note t1 = updateStatus_follows_transition_table
    [of "sample_order Online Pending" Cancelled "[]" "Some ''a1''" 60 "''d7''"]
  note t2 = updateStatus_follows_transition_table
    [of "sample_order Online Pending" Pending "[]" None 60 "''d7''"]
  note t3 = updateStatus_follows_transition_table
    [of "sample_order Online Pending" Out_for_delivery "[]" None 60 "''d7''"]
  note t4 = updateStatus_follows_transition_table
    [of "sample_order Online Delivered" Confirmed "[]" None 60 "''d7''"]
  note t5 = updateStatus_follows_transition_table
    [of "sample_order Online Packed" Packed "[]" None 60 "''d7''"]
  have p1: "snd (updateStatus (sample_order Online Pending) Cancelled [] (Some ''a1'') 60) = Saved"
    and p2: "tracking (fst (updateStatus (sample_order Online Pending) Cancelled [] (Some ''a1'') 60)) =
       tracking (sample_order Online Pending) @
         [\<lparr>t_status = Cancelled, timestamp = 60, t_note = ''Order cancelled'',
           updatedBy = Some ''a1''\<rparr>]"
    using t1 by (simp_all add: st)
  have p3: "updateStatus (sample_order Online Pending) Pending [] None 60 =
       (sample_order Online Pending, Resolved)"
    using t2 by (simp add: st)
  have p4: "updateStatus (sample_order Online Pending) Out_for_delivery [] None 60 =
       (sample_order Online Pending, Threw (CannotChangeStatus Pending Out_for_delivery))"
    and p5: "snd (assignDeliveryPartner (sample_order Online Pending) ''d7'' 60) =
       Threw (CannotChangeStatus Pending Out_for_delivery)"
    and p6: "stored_after (sample_order Online Pending)
       (assignDeliveryPartner (sample_order Online Pending) ''d7'' 60) = sample_order Online Pending"
    using t3 by (simp_all add: st)
  have p7: "snd (updateStatus (sample_order Online Delivered) Confirmed [] None 60) =
       Threw (CannotChangeStatus Delivered Confirmed)"
    using t4 by (simp add: st)
  have p8: "deliveryPartner (stored_after (sample_order Online Packed)
       (assignDeliveryPartner (sample_order Online Packed) ''d7'' 60)) = Some ''d7''"
    using t5 by (simp add: st)
  from p1 p2 p3 p4 p5 p6 p7 p8 show ?thesis by (simp add: st)
qed

text \<open>
  C7: the refund of a cash-on-delivery order is 0 whatever its status; of any other order
  it is the total amount while pending or confirmed, the total less the delivery charge
  while packed, and 0 while out for delivery or delivered.
\<close>

theorem calculateRefundAmount_table:
  assumes "paymentDetails ord = Some pd"
  shows "(pd_method pd = Cod \<longrightarrow> calculateRefundAmount ord = Inr 0) \<and>
         (pd_method pd \<noteq> Cod \<and> (status ord = Pending \<or> status ord = Confirmed) \<longrightarrow>
            calculateRefundAmount ord = Inr (os_totalAmount (orderSummary ord))) \<and>
         (pd_method pd \<noteq> Cod \<and> status ord = Packed \<longrightarrow>
            calculateRefundAmount ord =
              Inr (os_totalAmount (orderSummary ord) - os_deliveryCharge (orderSummary ord))) \<and>
         (pd_method pd \<noteq> Cod \<and> (status ord = Out_for_delivery \<or> status ord = Delivered) \<longrightarrow>
            calculateRefundAmount ord = Inr 0)"
  using assms by (auto simp: calculateRefundAmount_def)

theorem calculateRefundAmount_table_witness:
  "paymentDetails (sample_order Cod Packed) = Some \<lparr>pd_method = Cod, paidAmount = None\<rparr> \<and>
   calculateRefundAmount (sample_order Cod Packed) = Inr 0 \<and>
   paymentDetails (sample_order Upi Confirmed) = Some \<lparr>pd_method = Upi, paidAmount = None\<rparr> \<and>
   calculateRefundAmount (sample_order Upi Confirmed) = Inr 299 \<and>
   calculateRefundAmount (sample_order Card Packed) = Inr 270 \<and>
   calculateRefundAmount (sample_order Online Delivered) = Inr 0"
proof -
  have pd: "paymentDetails (sample_order m st) = Some \<lparr>pd_method = m, paidAmount = None\<rparr>" for m st
    by (simp add: sample_order_def)
  have "calculateRefundAmount (sample_order Cod Packed) = Inr 0"
    using calculateRefundAmount_table [OF pd, of Cod Packed] by simp
  moreover have "calculateRefundAmount (sample_order Upi Confirmed) = Inr 299"
    using calculateRefundAmount_table [OF pd, of Upi Confirmed] by (simp add: sample_order_def)
  moreover have "calculateRefundAmount (sample_order Card Packed) = Inr 270"
    using calculateRefundAmount_table [OF pd, of Card Packed] by (simp add: sample_order_def)
  moreover have "calculateRefundAmount (sample_order Online Delivered) = Inr 0"
    using calculateRefundAmount_table [OF pd, of Online Delivered] by (simp add: sample_order_def)
  ultimately show ?thesis by (simp add: pd)
qed

text \<open>
  C10: the refund is a function of the payment method, the status and the two amounts of
  the summary alone; for an order not paid on delivery it is 0 once the status is
  cancelled or returned. So cancelling a pending, confirmed or packed order first and
  asking for the refund afterwards gives 0, while asking before the transition gives the
  total (less the delivery charge when packed).
\<close>

theorem calculateRefundAmount_after_cancellation:
  assumes "paymentDetails ord = Some pd" and "pd_method pd \<noteq> Cod"
  shows "(status ord = Cancelled \<or> status ord = Returned \<longrightarrow> calculateRefundAmount ord = Inr 0) \<and>
         (status ord = Pending \<or> status ord = Confirmed \<or> status ord = Packed \<longrightarrow>
            snd (updateStatus ord Cancelled nt byUser now) = Saved \<and>
            status (fst (updateStatus ord Cancelled nt byUser now)) = Cancelled \<and>
            calculateRefundAmount (fst (updateStatus ord Cancelled nt byUser now)) = Inr 0 \<and>
            calculateRefundAmount ord =
              Inr (if status ord = Packed
                   then os_totalAmount (orderSummary ord) - os_deliveryCharge (orderSummary ord)
                   else os_totalAmount (orderSummary ord))) \<and>
         (\<forall>ord' :: order.
             map_option pd_method (paymentDetails ord') = Some (pd_method pd) \<and>
             status ord' = status ord \<and>
             os_totalAmount (orderSummary ord') = os_totalAmount (orderSummary ord) \<and>
             os_deliveryCharge (orderSummary ord') = os_deliveryCharge (orderSummary ord) \<longrightarrow>
             calculateRefundAmount ord' = calculateRefundAmount ord)"
proof (intro conjI impI allI)
  assume "status ord = Cancelled \<or> status ord = Returned"
  with assms show "calculateRefundAmount ord = Inr 0"
    by (auto simp: calculateRefundAmount_def)
next
  assume st: "status ord = Pending \<or> status ord = Confirmed \<or> status ord = Packed"
  then have ok: "Cancelled \<in> set (validTransitions (status ord))" by auto
  note acc = updateStatus_accepted [OF ok, of nt byUser now]
  from acc show "snd (updateStatus ord Cancelled nt byUser now) = Saved" by simp
  from acc show "status (fst (updateStatus ord Cancelled nt byUser now)) = Cancelled" by simp
  from st assms show "calculateRefundAmount (fst (updateStatus ord Cancelled nt byUser now)) = Inr 0"
    by (auto simp: calculateRefundAmount_def updateStatus_def Let_def)
  from st assms show "calculateRefundAmount ord =
      Inr (if status ord = Packed
           then os_totalAmount (orderSummary ord) - os_deliveryCharge (orderSummary ord)
           else os_totalAmount (orderSummary ord))"
    by (auto simp: calculateRefundAmount_def)
next
  fix ord' :: order
  assume "map_option pd_method (paymentDetails ord') = Some (pd_method pd) \<and>
          status ord' = status ord \<and>
          os_totalAmount (orderSummary ord') = os_totalAmount (orderSummary ord) \<and>
          os_deliveryCharge (orderSummary ord') = os_deliveryCharge (orderSummary ord)"
  with assms show "calculateRefundAmount ord' = calculateRefundAmount ord"
    by (auto simp: calculateRefundAmount_def)
qed

theorem calculateRefundAmount_after_cancellation_witness:
  "paymentDetails (sample_order Online Pending) = Some \<lparr>pd_method = Online, paidAmount = None\<rparr> \<and>
   calculateRefundAmount (sample_order Online Pending) = Inr 299 \<and>
   snd (updateStatus (sample_order Online Pending) Cancelled [] None 60) = Saved \<and>
   calculateRefundAmount (fst (updateStatus (sample_order Online Pending) Cancelled [] None 60)) = Inr 0 \<and>
   calculateRefundAmount (sample_order Online Cancelled) = Inr 0"
proof -
  have pd: "paymentDetails (sample_order Online st) = Some \<lparr>pd_method = Online, paidAmount = None\<rparr>"
    for st by (simp add: sample_order_def)
  have m: "pd_method \<lparr>pd_method = Online, paidAmount = None\<rparr> \<noteq> Cod" by simp
  have st: "status (sample_order Online st) = st" for st by (simp add: sample_order_def)
  have "os_totalAmount (orderSummary (sample_order Online Pending)) = 299"
    by (simp add: sample_order_def)
  with calculateRefundAmount_after_cancellation
         [OF pd m, of Pending "[]" None 60, THEN conjunct2, THEN conjunct1]
       calculateRefundAmount_after_cancellation
         [OF pd m, of Cancelled "[]" None 60, THEN conjunct1]
  show ?thesis by (simp add: st pd)
qed

section \<open>Cart pricing\<close>

lemma foldl_plus_sum_list:
  fixes f :: "'a \<Rightarrow> rat"
  shows "foldl (\<lambda>total x. total + f x) a xs = a + (\<Sum>x\<leftarrow>xs. f x)"
  by (induction xs arbitrary: a) (simp_all add: add.assoc)

lemma cart_pre_save_frame [simp]:
  "items (cart_pre_save e c) = items c"
  "couponDiscount (cart_pre_save e c) = couponDiscount c"
  "couponCode (cart_pre_save e c) = couponCode c"
  "user (cart_pre_save e c) = user c"
  by (simp_all add: cart_pre_save_def Let_def)

lemma findIndex_Some:
  "findIndex P xs = Some i \<Longrightarrow> i < length xs \<and> P (xs ! i)"
proof (induction xs arbitrary: i)
  case Nil
  then show ?case by simp
next
  case (Cons x xs)
  then show ?case by (cases i) (auto split: if_splits)
qed

lemma findIndex_None: "findIndex P xs = None \<longleftrightarrow> filter P xs = []"
  by (induction xs) auto

lemma variants_id_member: "variants_id p variantId = Some v \<Longrightarrow> v \<in> set (variants p) \<and> v_id v = variantId"
  by (auto simp: variants_id_def find_Some_iff)

lemma prices_kept_by_quantity_update:
  assumes "list_all (\<lambda>item. sellingPrice (price item) \<ge> 0) xs"
  shows "list_all (\<lambda>item. sellingPrice (price item) \<ge> 0) (xs[i := (xs ! i)\<lparr>quantity := x\<rparr>])"
proof (cases "i < length xs")
  case True
  with assms have "sellingPrice (price (xs ! i)) \<ge> 0"
    by (simp add: list_all_length)
  with assms True show ?thesis
    by (auto simp: list_all_length nth_list_update)
next
  case False
  then have "xs[i := (xs ! i)\<lparr>quantity := x\<rparr>] = xs"
    by (intro list_update_beyond) simp
  with assms show ?thesis by simp
qed

lemma stored_cart_inv_prices:
  "stored_cart_inv c \<Longrightarrow> list_all (\<lambda>item. sellingPrice (price item) \<ge> 0) (items c)"
  by (simp add: stored_cart_inv_def list_all_iff)

lemma cart_save_inv:
  assumes "cart_save e c = (c', None)"
    and "couponCode c = None \<longrightarrow> couponDiscount c = 0"
    and "list_all (\<lambda>item. sellingPrice (price item) \<ge> 0) (items c)"
  shows "stored_cart_inv c'"
  using assms by (auto simp: cart_save_def stored_cart_inv_def list_all_iff split: if_splits)

lemma addItem_inv:
  assumes "prices_nonneg Product" and "stored_cart_inv c"
    and "addItem e Product c productId variantId q = (c', None)"
  shows "stored_cart_inv c'"
proof -
  from assms(3) obtain d where save: "cart_save e d = (c', None)"
    and code: "couponCode d = couponCode c" "couponDiscount d = couponDiscount c"
    and its: "(\<exists>i x. items d = (items c)[i := (items c ! i)\<lparr>quantity := x\<rparr>] \<and> i < length (items c)) \<or>
              (\<exists>p v. Product productId = Some p \<and> v \<in> set (variants p) \<and>
                  items d = items c @ [\<lparr>product = Ref productId, variant = variantId, quantity = q,
                              price = \<lparr>mrp = mrp (v_price v),
                                        sellingPrice = sellingPrice (v_price v),
                                        discount = discount (v_price v)\<rparr>\<rparr>])"
    by (fastforce simp: addItem_def Let_def  split: option.splits if_splits dest: findIndex_Some variants_id_member)
  from its have "list_all (\<lambda>item. sellingPrice (price item) \<ge> 0) (items d)"
  proof
    assume "\<exists>i x. items d = (items c)[i := (items c ! i)\<lparr>quantity := x\<rparr>] \<and> i < length (items c)"
    then obtain i x where d: "items d = (items c)[i := (items c ! i)\<lparr>quantity := x\<rparr>]"
      by blast
    show ?thesis
      unfolding d by (rule prices_kept_by_quantity_update [OF stored_cart_inv_prices [OF assms(2)]])
  next
    assume "\<exists>p v. Product productId = Some p \<and> v \<in> set (variants p) \<and>
                  items d = items c @ [\<lparr>product = Ref productId, variant = variantId, quantity = q,
                              price = \<lparr>mrp = mrp (v_price v),
                                        sellingPrice = sellingPrice (v_price v),
                                        discount = discount (v_price v)\<rparr>\<rparr>]"
    with assms(1,2) show ?thesis
      by (auto simp: stored_cart_inv_def prices_nonneg_def list_all_iff)
  qed
  with save code assms(2) show ?thesis
    by (intro cart_save_inv [OF save]) (auto simp: stored_cart_inv_def)
qed

lemma updateItemQuantity_inv:
  assumes "stored_cart_inv c"
    and "updateItemQuantity e Product c productId variantId q = (c', None)"
  shows "stored_cart_inv c'"
proof -
  from assms(2) obtain d where save: "cart_save e d = (c', None)"
    and code: "couponCode d = couponCode c" "couponDiscount d = couponDiscount c"
    and its: "(\<exists>i. items d = (items c)[i := (items c ! i)\<lparr>quantity := q\<rparr>] \<and> i < length (items c)) \<or>
              (\<exists>i. items d = take i (items c) @ drop (Suc i) (items c))"
    by (fastforce simp: updateItemQuantity_def Let_def split: option.splits if_splits dest: findIndex_Some)
  from its have "list_all (\<lambda>item. sellingPrice (price item) \<ge> 0) (items d)"
  proof
    assume "\<exists>i. items d = (items c)[i := (items c ! i)\<lparr>quantity := q\<rparr>] \<and> i < length (items c)"
    then obtain i where d: "items d = (items c)[i := (items c ! i)\<lparr>quantity := q\<rparr>]"
      by blast
    show ?thesis
      unfolding d by (rule prices_kept_by_quantity_update [OF stored_cart_inv_prices [OF assms(1)]])
  next
    assume "\<exists>i. items d = take i (items c) @ drop (Suc i) (items c)"
    then obtain i where d: "items d = take i (items c) @ drop (Suc i) (items c)"
      by blast
    have "set (items d) \<subseteq> set (items c)"
      unfolding d using set_take_subset [of i "items c"] set_drop_subset [of "Suc i" "items c"]
      by auto
    with stored_cart_inv_prices [OF assms(1)] show ?thesis
      by (auto simp: list_all_iff)
  qed
  with save code assms(1) show ?thesis
    by (intro cart_save_inv [OF save]) (auto simp: stored_cart_inv_def)
qed

lemma apply_op_inv:
  assumes "prices_nonneg Product" and "stored_cart_inv c"
    and "apply_op e Product Coupon c op = (c', None)"
  shows "stored_cart_inv c'"
proof (cases op)
  case (AddItem p v q)
  with assms show ?thesis by (auto intro: addItem_inv)
next
  case (UpdateItemQuantity p v q)
  with assms show ?thesis by (auto intro: updateItemQuantity_inv)
next
  case (RemoveItem p v)
  with assms(3)
  have save: "cart_save e (c\<lparr>items := filter (\<lambda>item. \<not> same_line p v item) (items c)\<rparr>) = (c', None)"
    by (simp add: removeItem_def)
  show ?thesis
    by (rule cart_save_inv [OF save]) (use assms(2) in \<open>auto simp: stored_cart_inv_def list_all_iff\<close>)
next
  case ClearCart
  with assms(3)
  have save: "cart_save e (c\<lparr>items := [], couponCode := None, couponDiscount := 0\<rparr>) = (c', None)"
    by (simp add: clearCart_def)
  show ?thesis
    by (rule cart_save_inv [OF save]) simp_all
next
  case (ApplyCoupon cc now)
  with assms(3) obtain d
    where save: "cart_save e (c\<lparr>couponCode := Some cc, couponDiscount := d\<rparr>) = (c', None)"
    by (auto simp: applyCoupon_def Let_def split: option.splits if_splits)
  show ?thesis
    by (rule cart_save_inv [OF save]) (use assms(2) in \<open>auto simp: stored_cart_inv_def list_all_iff\<close>)
next
  case RemoveCoupon
  with assms(3)
  have save: "cart_save e (c\<lparr>couponCode := None, couponDiscount := 0\<rparr>) = (c', None)"
    by (simp add: removeCoupon_def)
  show ?thesis
    by (rule cart_save_inv [OF save]) (use assms(2) in \<open>auto simp: stored_cart_inv_def list_all_iff\<close>)
qed

lemma run_ops_inv:
  assumes "prices_nonneg Product"
  shows "stored_cart_inv c \<Longrightarrow> stored_cart_inv (run_ops e Product Coupon c ops)"
proof (induction ops arbitrary: c)
  case Nil
  then show ?case by simp
next
  case (Cons op ops)
  obtain c' r where step: "apply_op e Product Coupon c op = (c', r)"
    by (cases "apply_op e Product Coupon c op")
  show ?case
  proof (cases r)
    case None
    with step Cons.prems assms have "stored_cart_inv c'" by (auto intro: apply_op_inv)
    with Cons.IH step None show ?thesis by simp
  next
    case (Some err)
    with Cons step show ?thesis by simp
  qed
qed

lemma new_cart_inv: "stored_cart_inv (new_cart e u)"
  by (simp add: new_cart_def cart_save_def stored_cart_inv_def)

lemma sum_list_nonneg_rat:
  fixes f :: "'a \<Rightarrow> rat"
  shows "list_all (\<lambda>x. 0 \<le> f x) xs \<Longrightarrow> 0 \<le> (\<Sum>x\<leftarrow>xs. f x)"
  by (induction xs) auto

lemma cart_pre_save_recomputed: "totals_recomputed e (cart_pre_save e c)"
  by (simp add: totals_recomputed_def cart_pre_save_def Let_def foldl_plus_sum_list
      spec_totalItems_def spec_subtotal_def spec_totalDiscount_def spec_deliveryCharge_def
      freeDeliveryThreshold_def minOrderThreshold_def flatDeliveryFee_def)

lemma cart_pre_save_fixpoint: "totals_recomputed e c \<Longrightarrow> cart_pre_save e c = c"
  by (simp add: totals_recomputed_def cart_pre_save_def Let_def foldl_plus_sum_list
      spec_totalItems_def spec_subtotal_def spec_totalDiscount_def spec_deliveryCharge_def
      freeDeliveryThreshold_def minOrderThreshold_def flatDeliveryFee_def)

lemma cart_save_recomputed: "cart_save e c = (c', None) \<Longrightarrow> totals_recomputed e c'"
  by (auto simp: cart_save_def cart_pre_save_recomputed split: if_splits)

lemma apply_op_recomputed:
  "apply_op e Product Coupon c op = (c', None) \<Longrightarrow> totals_recomputed e c'"
  by (cases op)
     (auto simp: addItem_def updateItemQuantity_def removeItem_def clearCart_def applyCoupon_def
        removeCoupon_def Let_def dest: cart_save_recomputed split: option.splits if_splits)

lemma run_ops_recomputed:
  "totals_recomputed e c \<Longrightarrow> totals_recomputed e (run_ops e Product Coupon c ops)"
proof (induction ops arbitrary: c)
  case Nil
  then show ?case by simp
next
  case (Cons op ops)
  obtain c' r where step: "apply_op e Product Coupon c op = (c', r)"
    by (cases "apply_op e Product Coupon c op")
  show ?case
  proof (cases r)
    case None
    with step have "totals_recomputed e c'" by (simp add: apply_op_recomputed)
    with Cons.IH step None show ?thesis by simp
  next
    case (Some err)
    with Cons step show ?thesis by simp
  qed
qed

lemma new_cart_recomputed: "totals_recomputed e (new_cart e u)"
  by (simp add: new_cart_def cart_save_def cart_pre_save_recomputed)

lemma spec_deliveryCharge_tiers:
  "(st \<ge> freeDeliveryThreshold e \<longrightarrow> spec_deliveryCharge e st = 0) \<and>
   (minOrderThreshold e \<le> st \<and> st < freeDeliveryThreshold e \<longrightarrow>
      spec_deliveryCharge e st = flatDeliveryFee e) \<and>
   (st < minOrderThreshold e \<longrightarrow> spec_deliveryCharge e st = 0)"
  by (simp add: spec_deliveryCharge_def)

text \<open>
  C2: whatever the cart, a cart method that returns normally leaves stored totals that are
  the recomputation from the items and the coupon discount; so does every sequence of
  requests, from a new cart or from any cart whose totals were recomputed. Spelled out:
  \<open>totalItems\<close> is the sum of the quantities, \<open>subtotal\<close> the sum of selling price times
  quantity, \<open>totalDiscount\<close> the sum of (mrp - selling price) times quantity plus the coupon
  discount, the delivery charge follows the three tiers, and running the hook again changes
  nothing.
\<close>

theorem cart_totals_equal_recomputation:
  "(snd (apply_op e Product Coupon this op) = None \<longrightarrow>
      totals_recomputed e (fst (apply_op e Product Coupon this op))) \<and>
   (totals_recomputed e this \<longrightarrow> totals_recomputed e (run_ops e Product Coupon this ops)) \<and>
   totals_recomputed e (run_ops e Product Coupon (new_cart e u) ops) \<and>
   (totals_recomputed e c \<longrightarrow>
      totalItems c = (\<Sum>item\<leftarrow>items c. quantity item) \<and>
      subtotal c = (\<Sum>item\<leftarrow>items c. sellingPrice (price item) * quantity item) \<and>
      totalDiscount c =
        (\<Sum>item\<leftarrow>items c. (mrp (price item) - sellingPrice (price item)) * quantity item) +
        couponDiscount c \<and>
      (subtotal c \<ge> freeDeliveryThreshold e \<longrightarrow> deliveryCharge c = 0) \<and>
      (minOrderThreshold e \<le> subtotal c \<and> subtotal c < freeDeliveryThreshold e \<longrightarrow>
         deliveryCharge c = flatDeliveryFee e) \<and>
      (subtotal c < minOrderThreshold e \<longrightarrow> deliveryCharge c = 0) \<and>
      cart_pre_save e c = c) \<and>
   cart_pre_save e (cart_pre_save e this) = cart_pre_save e this"
proof (intro conjI impI)
  assume "snd (apply_op e Product Coupon this op) = None"
  then have "apply_op e Product Coupon this op = (fst (apply_op e Product Coupon this op), None)"
    by (metis prod.collapse)
  then show "totals_recomputed e (fst (apply_op e Product Coupon this op))"
    by (rule apply_op_recomputed)
next
  assume "totals_recomputed e this"
  then show "totals_recomputed e (run_ops e Product Coupon this ops)"
    by (rule run_ops_recomputed)
next
  show "totals_recomputed e (run_ops e Product Coupon (new_cart e u) ops)"
    by (rule run_ops_recomputed [OF new_cart_recomputed])
next
  show "cart_pre_save e (cart_pre_save e this) = cart_pre_save e this"
    by (rule cart_pre_save_fixpoint [OF cart_pre_save_recomputed])
next
  assume r: "totals_recomputed e c"
  then show "cart_pre_save e c = c" by (rule cart_pre_save_fixpoint)
  from r show "totalItems c = (\<Sum>item\<leftarrow>items c. quantity item)"
    by (simp add: totals_recomputed_def spec_totalItems_def)
  from r show "subtotal c = (\<Sum>item\<leftarrow>items c. sellingPrice (price item) * quantity item)"
    by (simp add: totals_recomputed_def spec_subtotal_def)
  from r show "totalDiscount c =
      (\<Sum>item\<leftarrow>items c. (mrp (price item) - sellingPrice (price item)) * quantity item) +
      couponDiscount c"
    by (simp add: totals_recomputed_def spec_totalDiscount_def)
  from r have dc: "deliveryCharge c = spec_deliveryCharge e (subtotal c)"
    by (simp add: totals_recomputed_def)
  { assume "subtotal c \<ge> freeDeliveryThreshold e"
    with dc show "deliveryCharge c = 0" by (simp add: spec_deliveryCharge_def) }
  { assume "minOrderThreshold e \<le> subtotal c \<and> subtotal c < freeDeliveryThreshold e"
    with dc show "deliveryCharge c = flatDeliveryFee e" by (simp add: spec_deliveryCharge_def) }
  { assume "subtotal c < minOrderThreshold e"
    with dc show "deliveryCharge c = 0" by (simp add: spec_deliveryCharge_def) }
qed

lemma sample_eval:
  "new_cart env0 ''u1'' = \<lparr>user = ''u1'', items = [], couponCode = None, couponDiscount = 0,
                       totalItems = 0, subtotal = 0, totalDiscount = 0, deliveryCharge = 0,
                       totalAmount = 0\<rparr>"
  "rice_cart = \<lparr>user = ''u1'',
    items =
      [\<lparr>product = Ref ''p1'', variant = ''v1'', quantity = 1,
          price = \<lparr>mrp = 350, sellingPrice = 300, discount = 50\<rparr>\<rparr>],
    couponCode = None, couponDiscount = 0, totalItems = 1, subtotal = 300,
    totalDiscount = 50, deliveryCharge = 0, totalAmount = 300\<rparr>"
  "milk_cart = \<lparr>user = ''u1'',
    items =
      [\<lparr>product = Ref ''p2'', variant = ''v2'', quantity = 1,
          price = \<lparr>mrp = 64, sellingPrice = 60, discount = 4\<rparr>\<rparr>],
    couponCode = None, couponDiscount = 0, totalItems = 1, subtotal = 60,
    totalDiscount = 4, deliveryCharge = 0, totalAmount = 60\<rparr>"
  by (simp_all add: rice_cart_def milk_cart_def new_cart_def cart_save_def cart_pre_save_def Let_def or_default_def env0_def
      catalogue_def rice_def milk_def addItem_def variants_id_def isAvailable_def same_line_def)

theorem cart_totals_equal_recomputation_witness:
  "snd (apply_op env0 catalogue [FLAT50] rice_cart (ApplyCoupon ''FLAT50'' 10)) = None \<and>
   totals_recomputed env0 (fst (apply_op env0 catalogue [FLAT50] rice_cart (ApplyCoupon ''FLAT50'' 10))) \<and>
   totals_recomputed env0 rice_cart \<and>
   totals_recomputed env0 (run_ops env0 catalogue [FLAT50] rice_cart [UpdateItemQuantity ''p1'' ''v1'' 2]) \<and>
   subtotal rice_cart = 300 \<and> 300 \<ge> freeDeliveryThreshold env0 \<and> deliveryCharge rice_cart = 0 \<and>
   cart_pre_save env0 rice_cart = rice_cart"
proof -
  have ok: "snd (apply_op env0 catalogue [FLAT50] rice_cart (ApplyCoupon ''FLAT50'' 10)) = None"
    by (simp add: sample_eval applyCoupon_def FLAT50_def cart_save_def)
  have r: "totals_recomputed env0 rice_cart"
    by (simp add: sample_eval totals_recomputed_def spec_totalItems_def spec_subtotal_def
        spec_totalDiscount_def spec_deliveryCharge_def freeDeliveryThreshold_def
        minOrderThreshold_def flatDeliveryFee_def or_default_def env0_def)
  have f: "300 \<ge> freeDeliveryThreshold env0"
    by (simp add: freeDeliveryThreshold_def or_default_def env0_def)
  note t = cart_totals_equal_recomputation
    [of env0 catalogue "[FLAT50]" rice_cart "ApplyCoupon ''FLAT50'' 10"
        "[UpdateItemQuantity ''p1'' ''v1'' 2]" "''u1''" rice_cart]
  from t ok r f show ?thesis by (simp add: sample_eval)
qed

text \<open>
  C6 as stated fails: a cart with one line of 300 takes the coupon FLAT50 (50 off from
  300), the line is removed, the discount stays, and the stored total is -50.
\<close>

theorem totalAmount_negative_after_removeItem:
  "totalAmount (run_ops env0 catalogue [FLAT50] (new_cart env0 ''u1'')
      [AddItem ''p1'' ''v1'' 1, ApplyCoupon ''FLAT50'' 10, RemoveItem ''p1'' ''v1'']) = - 50"
  by (simp add: new_cart_def cart_save_def cart_pre_save_def Let_def or_default_def env0_def
      catalogue_def rice_def milk_def FLAT50_def addItem_def removeItem_def applyCoupon_def
      variants_id_def isAvailable_def same_line_def)

lemma stored_cart_subtotal_nonneg:
  assumes "stored_cart_inv c" and "totals_recomputed e c"
  shows "0 \<le> subtotal c"
proof -
  from assms(1) have "list_all (\<lambda>item. 0 \<le> sellingPrice (price item) * quantity item) (items c)"
    by (auto simp: stored_cart_inv_def list_all_iff)
  then have "0 \<le> (\<Sum>item\<leftarrow>items c. sellingPrice (price item) * quantity item)"
    by (rule sum_list_nonneg_rat)
  with assms(2) show ?thesis
    by (simp add: totals_recomputed_def spec_subtotal_def)
qed

text \<open>
  C6, amended: for every cart reachable from a new cart the stored total is non-negative
  exactly when the stored coupon discount is at most subtotal plus delivery charge; and it
  is non-negative whenever no coupon is applied, for a catalogue with non-negative
  selling prices and a non-negative delivery fee.
\<close>

theorem totalAmount_nonneg_when_discount_covered:
  assumes "c = run_ops e Product Coupon (new_cart e u) ops"
  shows "(0 \<le> totalAmount c \<longleftrightarrow> couponDiscount c \<le> subtotal c + deliveryCharge c) \<and>
         (prices_nonneg Product \<and> 0 \<le> flatDeliveryFee e \<and> couponCode c = None \<longrightarrow>
            0 \<le> totalAmount c)"
proof (intro conjI impI)
  have r: "totals_recomputed e c"
    unfolding assms by (rule run_ops_recomputed [OF new_cart_recomputed])
  then have total: "totalAmount c = subtotal c + deliveryCharge c - couponDiscount c"
    by (simp add: totals_recomputed_def)
  then show "0 \<le> totalAmount c \<longleftrightarrow> couponDiscount c \<le> subtotal c + deliveryCharge c"
    by auto
  assume h: "prices_nonneg Product \<and> 0 \<le> flatDeliveryFee e \<and> couponCode c = None"
  then have inv: "stored_cart_inv c"
    unfolding assms by (intro run_ops_inv new_cart_inv) simp
  with h have "couponDiscount c = 0"
    by (simp add: stored_cart_inv_def)
  moreover have "0 \<le> subtotal c"
    using inv r by (rule stored_cart_subtotal_nonneg)
  moreover from r h have "0 \<le> deliveryCharge c"
    by (simp add: totals_recomputed_def spec_deliveryCharge_def)
  ultimately show "0 \<le> totalAmount c"
    using total by simp
qed

lemma prices_nonneg_catalogue: "prices_nonneg catalogue"
  by (auto simp: prices_nonneg_def catalogue_def rice_def milk_def split: if_splits)

theorem totalAmount_nonneg_when_discount_covered_witness:
  "rice_cart = run_ops env0 catalogue [FLAT50] (new_cart env0 ''u1'') [AddItem ''p1'' ''v1'' 1] \<and>
   prices_nonneg catalogue \<and> 0 \<le> flatDeliveryFee env0 \<and> couponCode rice_cart = None \<and>
   couponDiscount rice_cart \<le> subtotal rice_cart + deliveryCharge rice_cart \<and>
   0 \<le> totalAmount rice_cart"
proof -
  have fee: "0 \<le> flatDeliveryFee env0"
    by (simp add: flatDeliveryFee_def or_default_def env0_def)
  have code: "couponCode rice_cart = None"
    by (simp add: sample_eval)
  have eq: "rice_cart = run_ops env0 catalogue [FLAT50] (new_cart env0 ''u1'') [AddItem ''p1'' ''v1'' 1]"
    by (rule rice_cart_def)
  have cov: "couponDiscount rice_cart \<le> subtotal rice_cart + deliveryCharge rice_cart"
    by (simp add: sample_eval)
  from totalAmount_nonneg_when_discount_covered [OF eq] prices_nonneg_catalogue fee code
  have "0 \<le> totalAmount rice_cart" by blast
  with eq prices_nonneg_catalogue fee code cov show ?thesis
    by blast
qed

lemma single_line_findIndex:
  assumes "filter P xs = [x]"
  shows "\<exists>i. findIndex P xs = Some i \<and> i < length xs \<and> xs ! i = x \<and>
             (\<forall>y. P y \<longrightarrow> filter P (xs[i := y]) = [y]) \<and>
             (\<forall>y. filter (\<lambda>z. \<not> P z) (xs[i := y]) = filter (\<lambda>z. \<not> P z) xs \<or> \<not> P y)"
  using assms
proof (induction xs)
  case Nil
  then show ?case by simp
next
  case (Cons a xs)
  show ?case
  proof (cases "P a")
    case True
    with Cons.prems have "a = x" and "filter P xs = []" by simp_all
    with True show ?thesis by (intro exI [of _ 0]) simp
  next
    case False
    with Cons.prems have "filter P xs = [x]" by simp
    from Cons.IH [OF this] obtain i where i: "findIndex P xs = Some i" "i < length xs" "xs ! i = x"
      "\<forall>y. P y \<longrightarrow> filter P (xs[i := y]) = [y]"
      "\<forall>y. filter (\<lambda>z. \<not> P z) (xs[i := y]) = filter (\<lambda>z. \<not> P z) xs \<or> \<not> P y"
      by blast
    with False show ?thesis by (intro exI [of _ "Suc i"]) auto
  qed
qed

lemma list_all_update:
  "list_all Q xs \<Longrightarrow> Q y \<Longrightarrow> list_all Q (xs[i := y])"
  by (induction xs arbitrary: i) (auto split: nat.splits)

lemma same_line_key: "same_line p v item \<longleftrightarrow> line_key item = (p, v)"
  by (auto simp: same_line_def line_key_def)

lemma keys_kept_by_quantity_update:
  "map line_key (xs[i := (xs ! i)\<lparr>quantity := x\<rparr>]) = map line_key xs"
proof (cases "i < length xs")
  case True
  then show ?thesis
    by (simp add: map_update line_key_def list_update_same_conv)
next
  case False
  then have "xs[i := (xs ! i)\<lparr>quantity := x\<rparr>] = xs"
    by (intro list_update_beyond) simp
  then show ?thesis by simp
qed

lemma distinct_splice:
  assumes "distinct ys"
  shows "distinct (take i ys @ drop (Suc i) ys)"
proof -
  from assms have "set (take i ys) \<inter> set (drop (Suc i) ys) = {}"
    by (rule set_take_disj_set_drop_if_distinct) simp
  with assms show ?thesis by simp
qed

lemma distinct_keys_splice:
  assumes "distinct (map line_key xs)"
  shows "distinct (map line_key (take i xs @ drop (Suc i) xs))"
proof -
  have "map line_key (take i xs @ drop (Suc i) xs) =
        take i (map line_key xs) @ drop (Suc i) (map line_key xs)"
    by (simp add: take_map drop_map)
  with distinct_splice [OF assms, of i] show ?thesis by simp
qed

lemma cart_save_items: "cart_save e c = (c', None) \<Longrightarrow> items c' = items c"
  by (auto simp: cart_save_def split: if_splits)

lemma apply_op_distinct_lines:
  assumes "distinct (map line_key (items c))"
    and "apply_op e Product Coupon c op = (c', None)"
  shows "distinct (map line_key (items c'))"
proof (cases op)
  case (AddItem p v q)
  with assms(2) obtain d where save: "cart_save e d = (c', None)"
    and its: "(\<exists>i x. items d = (items c)[i := (items c ! i)\<lparr>quantity := x\<rparr>]) \<or>
              (\<exists>pr. filter (same_line p v) (items c) = [] \<and>
                 items d = items c @ [\<lparr>product = Ref p, variant = v, quantity = q, price = pr\<rparr>])"
    by (fastforce simp: addItem_def Let_def findIndex_None split: option.splits if_splits)
  from its have "distinct (map line_key (items d))"
  proof
    assume "\<exists>i x. items d = (items c)[i := (items c ! i)\<lparr>quantity := x\<rparr>]"
    with assms(1) show ?thesis by (auto simp: keys_kept_by_quantity_update)
  next
    assume "\<exists>pr. filter (same_line p v) (items c) = [] \<and>
                 items d = items c @ [\<lparr>product = Ref p, variant = v, quantity = q, price = pr\<rparr>]"
    then obtain pr where none: "filter (same_line p v) (items c) = []"
      and d: "items d = items c @ [\<lparr>product = Ref p, variant = v, quantity = q, price = pr\<rparr>]"
      by blast
    from none have "(p, v) \<notin> set (map line_key (items c))"
      by (auto simp: filter_empty_conv same_line_key)
    with assms(1) d show ?thesis by (simp add: line_key_def)
  qed
  with cart_save_items [OF save] show ?thesis by simp
next
  case (UpdateItemQuantity p v q)
  with assms(2) obtain d where save: "cart_save e d = (c', None)"
    and its: "(\<exists>i. items d = (items c)[i := (items c ! i)\<lparr>quantity := q\<rparr>]) \<or>
              (\<exists>i. items d = take i (items c) @ drop (Suc i) (items c))"
    by (fastforce simp: updateItemQuantity_def Let_def split: option.splits if_splits)
  from its have "distinct (map line_key (items d))"
  proof
    assume "\<exists>i. items d = (items c)[i := (items c ! i)\<lparr>quantity := q\<rparr>]"
    with assms(1) show ?thesis by (auto simp: keys_kept_by_quantity_update)
  next
    assume "\<exists>i. items d = take i (items c) @ drop (Suc i) (items c)"
    then obtain i where "items d = take i (items c) @ drop (Suc i) (items c)" by blast
    with distinct_keys_splice [OF assms(1), of i] show ?thesis by simp
  qed
  with cart_save_items [OF save] show ?thesis by simp
next
  case (RemoveItem p v)
  with assms(2)
  have save: "cart_save e (c\<lparr>items := filter (\<lambda>item. \<not> same_line p v item) (items c)\<rparr>) = (c', None)"
    by (simp add: removeItem_def)
  from assms(1) cart_save_items [OF save] show ?thesis
    by (simp add: distinct_map_filter)
next
  case ClearCart
  with assms(2)
  have save: "cart_save e (c\<lparr>items := [], couponCode := None, couponDiscount := 0\<rparr>) = (c', None)"
    by (simp add: clearCart_def)
  from cart_save_items [OF save] show ?thesis by simp
next
  case (ApplyCoupon cc now)
  with assms(2) obtain d
    where save: "cart_save e (c\<lparr>couponCode := Some cc, couponDiscount := d\<rparr>) = (c', None)"
    by (auto simp: applyCoupon_def Let_def split: option.splits if_splits)
  from assms(1) cart_save_items [OF save] show ?thesis by simp
next
  case RemoveCoupon
  with assms(2)
  have save: "cart_save e (c\<lparr>couponCode := None, couponDiscount := 0\<rparr>) = (c', None)"
    by (simp add: removeCoupon_def)
  from assms(1) cart_save_items [OF save] show ?thesis by simp
qed

lemma run_ops_distinct_lines:
  "distinct (map line_key (items c)) \<Longrightarrow>
     distinct (map line_key (items (run_ops e Product Coupon c ops)))"
proof (induction ops arbitrary: c)
  case Nil
  then show ?case by simp
next
  case (Cons op ops)
  obtain c' r where step: "apply_op e Product Coupon c op = (c', r)"
    by (cases "apply_op e Product Coupon c op")
  show ?case
  proof (cases r)
    case None
    with step Cons.prems have "distinct (map line_key (items c'))"
      by (auto intro: apply_op_distinct_lines)
    with Cons.IH step None show ?thesis by simp
  next
    case (Some err)
    with Cons step show ?thesis by simp
  qed
qed

lemma distinct_keys_single_line:
  assumes "distinct (map line_key xs)" and "line \<in> set xs" and "same_line p v line"
  shows "filter (same_line p v) xs = [line]"
  using assms
proof (induction xs)
  case Nil
  then show ?case by simp
next
  case (Cons a xs)
  show ?case
  proof (cases "a = line")
    case True
    with Cons.prems have "\<forall>x \<in> set xs. \<not> same_line p v x"
      by (auto simp: same_line_key) (metis image_eqI)
    with True Cons.prems show ?thesis by (simp add: filter_empty_conv)
  next
    case False
    with Cons.prems have "line \<in> set xs" by simp
    with Cons.prems have "\<not> same_line p v a"
      by (auto simp: same_line_key) (metis image_eqI)
    with Cons \<open>line \<in> set xs\<close> show ?thesis by simp
  qed
qed

lemma apply_op_valid_quantities:
  "apply_op e Product Coupon c op = (c', None) \<Longrightarrow> list_all (\<lambda>item. quantity item \<ge> 1) (items c')"
  by (cases op)
     (auto simp: addItem_def updateItemQuantity_def removeItem_def clearCart_def applyCoupon_def
        removeCoupon_def Let_def cart_save_def split: option.splits if_splits)

lemma run_ops_valid_quantities:
  "list_all (\<lambda>item. quantity item \<ge> 1) (items c) \<Longrightarrow>
     list_all (\<lambda>item. quantity item \<ge> 1) (items (run_ops e Product Coupon c ops))"
proof (induction ops arbitrary: c)
  case Nil
  then show ?case by simp
next
  case (Cons op ops)
  obtain c' r where step: "apply_op e Product Coupon c op = (c', r)"
    by (cases "apply_op e Product Coupon c op")
  show ?case
  proof (cases r)
    case None
    with step have "list_all (\<lambda>item. quantity item \<ge> 1) (items c')"
      by (auto intro: apply_op_valid_quantities)
    with Cons.IH step None show ?thesis by simp
  next
    case (Some err)
    with Cons step show ?thesis by simp
  qed
qed

text \<open>
  Every cart reached from a new cart by such requests has quantities of at least 1, and a
  line it holds is the only line that matches its product and variant.
\<close>

lemma reachable_cart_lines:
  assumes "c = run_ops e Product Coupon (new_cart e u) ops"
  shows "list_all (\<lambda>item. quantity item \<ge> 1) (items c) \<and>
         (\<forall>line p v. line \<in> set (items c) \<and> same_line p v line \<longrightarrow>
            filter (same_line p v) (items c) = [line])"
proof
  have "list_all (\<lambda>item. quantity item \<ge> 1) (items (new_cart e u))"
    by (simp add: new_cart_def cart_save_def)
  then show "list_all (\<lambda>item. quantity item \<ge> 1) (items c)"
    unfolding assms by (rule run_ops_valid_quantities)
  have "distinct (map line_key (items (new_cart e u)))"
    by (simp add: new_cart_def cart_save_def)
  then have "distinct (map line_key (items c))"
    unfolding assms by (rule run_ops_distinct_lines)
  then show "\<forall>line p v. line \<in> set (items c) \<and> same_line p v line \<longrightarrow>
            filter (same_line p v) (items c) = [line]"
    by (auto intro: distinct_keys_single_line)
qed

text \<open>
  Where \<open>findIndex\<close> finds the line: in a stored cart (every quantity at least 1) that
  holds one matching line, with quantity q0, adding q > 0 more units succeeds exactly when
  the variant's stock is at least q0 + q; the cart then holds the one line with quantity
  q0 + q, its other lines as they were and no line more. For a pair with no matching
  line, adding q (at least 1, at most the stock) appends one line with the variant's
  current mrp, selling price and discount.
\<close>

lemma addItem_merges_when_line_found:
  assumes prod: "Product productId = Some p"
    and var: "variants_id p variantId = Some v"
    and stored: "list_all (\<lambda>item. quantity item \<ge> 1) (items this)"
  shows "(filter (same_line productId variantId) (items this) = [line] \<and> 0 < q \<longrightarrow>
            (snd (addItem e Product this productId variantId q) = None \<longleftrightarrow>
               stock v \<ge> quantity line + q) \<and>
            (stock v \<ge> quantity line + q \<longrightarrow>
               filter (same_line productId variantId)
                 (items (fst (addItem e Product this productId variantId q))) =
                 [line\<lparr>quantity := quantity line + q\<rparr>] \<and>
               filter (\<lambda>item. \<not> same_line productId variantId item)
                 (items (fst (addItem e Product this productId variantId q))) =
                 filter (\<lambda>item. \<not> same_line productId variantId item) (items this) \<and>
               length (items (fst (addItem e Product this productId variantId q))) =
                 length (items this))) \<and>
         (filter (same_line productId variantId) (items this) = [] \<and> 1 \<le> q \<and> q \<le> stock v \<longrightarrow>
            addItem e Product this productId variantId q =
              (cart_pre_save e
                 (this\<lparr>items := items this @
                    [\<lparr>product = Ref productId, variant = variantId, quantity = q,
                      price = \<lparr>mrp = mrp (v_price v), sellingPrice = sellingPrice (v_price v),
                                discount = discount (v_price v)\<rparr>\<rparr>]\<rparr>),
               None))"
proof (intro conjI impI)
  assume h: "filter (same_line productId variantId) (items this) = [] \<and> 1 \<le> q \<and> q \<le> stock v"
  then have "findIndex (same_line productId variantId) (items this) = None"
    by (simp add: findIndex_None)
  with h prod var stored show "addItem e Product this productId variantId q =
      (cart_pre_save e
         (this\<lparr>items := items this @
            [\<lparr>product = Ref productId, variant = variantId, quantity = q,
              price = \<lparr>mrp = mrp (v_price v), sellingPrice = sellingPrice (v_price v),
                        discount = discount (v_price v)\<rparr>\<rparr>]\<rparr>),
       None)"
    by (simp add: addItem_def isAvailable_def cart_save_def)
next
  assume h: "filter (same_line productId variantId) (items this) = [line] \<and> 0 < q"
  let ?P = "same_line productId variantId"
  let ?merged = "line\<lparr>quantity := quantity line + q\<rparr>"
  from h single_line_findIndex [of ?P "items this" line]
  obtain i where i: "findIndex ?P (items this) = Some i" "i < length (items this)"
    "items this ! i = line"
    and one: "\<forall>y. ?P y \<longrightarrow> filter ?P ((items this)[i := y]) = [y]"
    and rest: "\<forall>y. filter (\<lambda>z. \<not> ?P z) ((items this)[i := y]) = filter (\<lambda>z. \<not> ?P z) (items this) \<or> \<not> ?P y"
    by blast
  from h have "line \<in> set (filter ?P (items this))" by simp
  then have line: "?P line" "line \<in> set (items this)" by simp_all
  with stored have q0: "quantity line \<ge> 1" by (simp add: list_all_iff)
  have Pm: "?P ?merged" using line(1) by (simp add: same_line_def)
  have valid: "list_all (\<lambda>item. quantity item \<ge> 1) ((items this)[i := ?merged])"
    using stored q0 h by (intro list_all_update) simp_all
  have avail: "isAvailable p variantId x \<longleftrightarrow> stock v \<ge> x" for x
    using var by (simp add: isAvailable_def)
  have ok: "addItem e Product this productId variantId q =
              (cart_pre_save e (this\<lparr>items := (items this)[i := ?merged]\<rparr>), None)"
    if "stock v \<ge> quantity line + q"
    using that prod var i valid q0 by (simp add: addItem_def avail Let_def cart_save_def)
  have ko: "snd (addItem e Product this productId variantId q) \<noteq> None"
    if "\<not> stock v \<ge> quantity line + q"
    using that prod var i by (simp add: addItem_def avail Let_def)
  show "snd (addItem e Product this productId variantId q) = None \<longleftrightarrow> stock v \<ge> quantity line + q"
    using ok ko by (cases "stock v \<ge> quantity line + q") simp_all
  assume s: "stock v \<ge> quantity line + q"
  from ok [OF s] one Pm
  show "filter ?P (items (fst (addItem e Product this productId variantId q))) = [?merged]"
    by simp
  from ok [OF s] rest Pm
  show "filter (\<lambda>item. \<not> ?P item) (items (fst (addItem e Product this productId variantId q))) =
        filter (\<lambda>item. \<not> ?P item) (items this)"
    by auto
  from ok [OF s]
  show "length (items (fst (addItem e Product this productId variantId q))) = length (items this)"
    by simp
qed

lemma populated_line_never_matches:
  assumes "product item = Populated i p" and "productId = [] \<or> hd productId \<noteq> CHR ''{''"
  shows "\<not> same_line productId variantId item"
  using assms by (auto simp: same_line_def)

text \<open>
  C9, on a cart as \<open>getCartByUser\<close> loads it: the cart holds 1 unit of (p1, v1), its
  product populated, and the stock is 5. \<open>findIndex\<close> compares the document's dump with
  the id and finds no line, so adding 5 units checks the 5 alone, succeeds and appends a
  second line for the pair: 6 units against a stock of 5. On the same cart with the
  reference unpopulated the line is found and the call is refused.
\<close>

theorem addItem_appends_on_populated_cart:
  "items loaded_rice_cart =
     [\<lparr>product = Populated ''p1'' rice, variant = ''v1'', quantity = 1,
       price = \<lparr>mrp = 350, sellingPrice = 300, discount = 50\<rparr>\<rparr>] \<and>
   map_option stock (variants_id rice ''v1'') = Some 5 \<and>
   findIndex (same_line ''p1'' ''v1'') (items loaded_rice_cart) = None \<and>
   snd (addItem env0 catalogue loaded_rice_cart ''p1'' ''v1'' 5) = None \<and>
   map (\<lambda>item. (product item, variant item, quantity item))
     (items (fst (addItem env0 catalogue loaded_rice_cart ''p1'' ''v1'' 5))) =
     [(Populated ''p1'' rice, ''v1'', 1), (Ref ''p1'', ''v1'', 5)] \<and>
   totalItems (fst (addItem env0 catalogue loaded_rice_cart ''p1'' ''v1'' 5)) = 6 \<and>
   addItem env0 catalogue rice_cart ''p1'' ''v1'' 5 =
     (rice_cart, Some InsufficientStockForRequested)"
  by (simp add: loaded_rice_cart_def sample_eval addItem_def catalogue_def rice_def
      variants_id_def isAvailable_def same_line_def cart_save_def cart_pre_save_def Let_def
      or_default_def env0_def)

section \<open>Coupons\<close>

lemma calculateDiscount_bounded:
  "calculateDiscount this now cartTotal = Inr d \<Longrightarrow> d \<le> cartTotal"
  by (auto simp: calculateDiscount_def Let_def split: if_splits)

lemma calculateDiscount_value:
  assumes "isValidForUsage this now" and "minOrderAmount this \<le> cartTotal"
  shows "calculateDiscount this now cartTotal =
           Inr (case discountType this of
                  Percentage \<Rightarrow>
                    (case maxDiscount this of
                       None \<Rightarrow> min (cartTotal * discountValue this / 100) cartTotal
                     | Some m \<Rightarrow>
                         if m \<noteq> 0 then min (min (cartTotal * discountValue this / 100) m) cartTotal
                         else min (cartTotal * discountValue this / 100) cartTotal)
                | Fixed \<Rightarrow> min (discountValue this) cartTotal)"
  using assms
  by (cases "discountType this") (auto simp: calculateDiscount_def Let_def split: option.splits)

lemma find_ignores_caps:
  "find (\<lambda>c. code c = cc \<and> isActive c \<and> validFrom c \<le> now \<and> validUntil c \<ge> now)
     (map (\<lambda>c. c\<lparr>usageLimit := l c, usedCount := n c, userUsageLimit := k c,
                  isFirstOrderOnly := b c\<rparr>) Coupon) =
   map_option (\<lambda>c. c\<lparr>usageLimit := l c, usedCount := n c, userUsageLimit := k c,
                       isFirstOrderOnly := b c\<rparr>)
     (find (\<lambda>c. code c = cc \<and> isActive c \<and> validFrom c \<le> now \<and> validUntil c \<ge> now) Coupon)"
  by (induction Coupon) auto

lemma applyCoupon_ignores_caps:
  "applyCoupon e
     (map (\<lambda>c. c\<lparr>usageLimit := l c, usedCount := n c, userUsageLimit := k c,
                  isFirstOrderOnly := b c\<rparr>) Coupon) now this cc =
   applyCoupon e Coupon now this cc"
  unfolding applyCoupon_def find_ignores_caps
  by (cases "find (\<lambda>c. code c = cc \<and> isActive c \<and> validFrom c \<le> now \<and> validUntil c \<ge> now) Coupon")
     simp_all

text \<open>
  C4, where \<open>applyCoupon\<close> departs from the chain that \<open>canUserUseCoupon\<close> checks: user
  u1 has used FLAT50 once (its per-user limit is 1) and applies it again with success; and
  the same coupon with its global limit of 1 reached is applied with success too.
\<close>

theorem applyCoupon_ignores_usage_history:
  "user rice_cart = ''u1'' \<and>
   canUserUseCoupon FLAT50 [] flat50_used_by_u1 10 ''u1'' =
     Some ''You have already used this coupon maximum times'' \<and>
   applyCoupon env0 [FLAT50] 10 rice_cart ''FLAT50'' =
     (rice_cart\<lparr>couponCode := Some ''FLAT50'', couponDiscount := 50, totalDiscount := 100,
                totalAmount := 250\<rparr>, None) \<and>
   canUserUseCoupon (FLAT50\<lparr>usageLimit := Some 1\<rparr>) [] [] 10 ''u2'' = Some ''Coupon is not valid'' \<and>
   snd (applyCoupon env0 [FLAT50\<lparr>usageLimit := Some 1\<rparr>] 10 rice_cart ''FLAT50'') = None"
  by (simp add: sample_eval canUserUseCoupon_def isValidForUsage_def FLAT50_def
      flat50_used_by_u1_def applyCoupon_def cart_save_def cart_pre_save_def Let_def
      or_default_def env0_def)

text \<open>
  C5, where \<open>applyCoupon\<close> departs from \<open>calculateDiscount\<close>: a fixed coupon of 100 on a
  subtotal of 60 gives 60 from the coupon's own method and 100 on the cart, whose total
  becomes -40.
\<close>

theorem applyCoupon_discount_exceeds_subtotal:
  "subtotal milk_cart = 60 \<and>
   calculateDiscount OFF100 10 (subtotal milk_cart) = Inr 60 \<and>
   snd (applyCoupon env0 [OFF100] 10 milk_cart ''OFF100'') = None \<and>
   couponDiscount (fst (applyCoupon env0 [OFF100] 10 milk_cart ''OFF100'')) = 100 \<and>
   totalAmount (fst (applyCoupon env0 [OFF100] 10 milk_cart ''OFF100'')) = - 40"
  by (simp add: sample_eval calculateDiscount_def isValidForUsage_def OFF100_def
      applyCoupon_def cart_save_def cart_pre_save_def Let_def or_default_def env0_def)

lemma useCoupon_always_throws:
  "useCoupon this CouponUsage userId now =
     ((this\<lparr>usedCount := usedCount this + 1\<rparr>, CouponUsage), Some ValidationError)"
  by (simp add: useCoupon_def CouponUsage_create_def Let_def)

text \<open>
  C8, what \<open>useCoupon\<close> does: the counter goes from 1 to 2 and is saved, the usage
  document lacks the required \<open>discountAmount\<close>, its creation throws, and the collection
  still holds one usage.
\<close>

theorem useCoupon_counts_without_recording:
  "useCoupon FLAT50 flat50_used_by_u1 ''u2'' 60 =
     ((FLAT50\<lparr>usedCount := 2\<rparr>, flat50_used_by_u1), Some ValidationError) \<and>
   usedCount FLAT50 = 1 \<and> length flat50_used_by_u1 = 1"
  by (simp add: useCoupon_def CouponUsage_create_def Let_def FLAT50_def flat50_used_by_u1_def)

end
